theory Spec2Isabelle
  imports Complex_Main "HOL-Library.AList" "HOL-Library.Multiset"
begin

section \<open>Data model of \<open>sessionBrowserContextFactory.ts\<close>\<close>

text \<open>
  A \<open>playwright.BrowserContext\<close> and the \<open>close\<close> callback handed out by the wrapped
  factory are objects of the environment; the factory only stores them, compares nothing
  and calls \<open>close()\<close> and \<open>on('close', ...)\<close> on them. They are handles here. A rejected
  promise carries an \<open>error\<close>. A \<open>Date\<close> is its \<open>getTime()\<close>, in milliseconds.
  \<open>refCount\<close> is a JavaScript number that is initialised to 0 and only ever changed by
  \<open>++\<close> and \<open>--\<close>: an integer.
\<close>

type_synonym BrowserContext = nat
type_synonym CloseFn = nat

datatype error = Error string

record ClientInfo =
  name :: string
  version :: string

record ManagedSession =
  browserContext :: BrowserContext
  close :: CloseFn
  refCount :: int
  sessionId :: string
  createdAt :: int
  lastAccessedAt :: int

text \<open>
  The object state. \<open>sessions\<close> is the JavaScript \<open>Map\<close> \<open>_sessions\<close>: an association list
  in insertion order, where \<open>set\<close> on a resident key keeps its place (\<open>AList.update\<close>),
  \<open>delete\<close> removes the key (\<open>AList.delete\<close>) and \<open>get\<close> is \<open>map_of\<close>.
  The effects on the environment are recorded beside it: \<open>closeListeners\<close> holds every
  registration \<open>browserContext.on('close', handler)\<close> as the context and the \<open>sessionId\<close>
  the handler captured, \<open>wrappedCalls\<close> every call of \<open>_wrappedFactory.createContext\<close>
  with its argument, \<open>closeCalls\<close> every invocation of a session's \<open>close()\<close>.
\<close>

record SessionBrowserContextFactory =
  sessions :: "(string \<times> ManagedSession) list"
  defaultSessionId :: string
  closeListeners :: "(BrowserContext \<times> string) list"
  wrappedCalls :: "ClientInfo list"
  closeCalls :: "CloseFn list"

text \<open>The constructor; the parameter \<open>defaultSessionId\<close> defaults to \<open>'default'\<close>.\<close>

definition newFactory :: "string option \<Rightarrow> SessionBrowserContextFactory" where
  "newFactory d =
     \<lparr>sessions = [],
      defaultSessionId = (case d of None \<Rightarrow> ''default'' | Some s \<Rightarrow> s),
      closeListeners = [],
      wrappedCalls = [],
      closeCalls = []\<rparr>"

text \<open>
  An \<open>async\<close> function runs without interruption up to its first \<open>await\<close> and, once
  the awaited promise has settled, from there to the next one. Each function with an
  \<open>await\<close> is therefore given as its uninterrupted parts (\<open>_begin\<close>, \<open>_resume\<close>) and as
  their composition, the call that nothing interleaves with. \<open>Returned r\<close> is a part
  that ran to its \<open>return\<close>, \<open>Awaiting c\<close> one that made the call \<open>c\<close> to the
  environment and stopped at its \<open>await\<close>.
\<close>

datatype ('a, 'c) task = Returned 'a | Awaiting 'c

text \<open>The closure \<open>() => this._releaseSession(sessionId)\<close> with the identifier it captured.\<close>

datatype releaseFn = ReleaseSession string

section \<open>Acquire: \<open>createContext\<close> and \<open>getOrCreateSession\<close>\<close>

text \<open>
  The two functions share three blocks of text: the object literal of the new session
  (lines 66-73 and 121-128), its registration in the map with the subscription to the
  context's \<open>close\<close> event (lines 75-81 and 130-135), and the increment of \<open>refCount\<close>
  with the refresh of \<open>lastAccessedAt\<close> (lines 85-86 and 138-139). The last one mutates
  the object \<open>session\<close>, which at that point is the one stored under the identifier.
  Each \<open>new Date()\<close> is an argument: \<open>tc\<close> and \<open>ta\<close> are the two readings of the object
  literal, \<open>t\<close> the one of the refresh. \<open>settled\<close> is what the promise of
  \<open>_wrappedFactory.createContext(clientInfo)\<close> settles to: \<open>Inl e\<close> when it rejects with
  \<open>e\<close>, \<open>Inr (browserContext, close)\<close> when it resolves. \<open>_defaultSessionId\<close> is assigned
  in the constructor only, so the \<open>sessionId\<close> that \<open>createContext\<close> reads before its
  \<open>await\<close> is the one read after it.
\<close>

definition newSession :: "string \<Rightarrow> BrowserContext \<times> CloseFn \<Rightarrow> int \<Rightarrow> int \<Rightarrow> ManagedSession" where
  "newSession sid result tc ta =
     \<lparr>browserContext = fst result,
      close = snd result,
      refCount = 0,
      sessionId = sid,
      createdAt = tc,
      lastAccessedAt = ta\<rparr>"

definition registerSession ::
  "string \<Rightarrow> ManagedSession \<Rightarrow> SessionBrowserContextFactory \<Rightarrow> SessionBrowserContextFactory" where
  "registerSession sid session st =
     st\<lparr>sessions := AList.update sid session (sessions st),
        closeListeners := closeListeners st @ [(browserContext session, sid)]\<rparr>"

definition acquired ::
  "string \<Rightarrow> ManagedSession \<Rightarrow> int \<Rightarrow> SessionBrowserContextFactory \<Rightarrow> SessionBrowserContextFactory" where
  "acquired sid session t st =
     st\<lparr>sessions :=
          AList.update sid (session\<lparr>refCount := refCount session + 1, lastAccessedAt := t\<rparr>)
            (sessions st)\<rparr>"

definition createContext_begin ::
  "ClientInfo \<Rightarrow> int \<Rightarrow> SessionBrowserContextFactory \<Rightarrow>
     (BrowserContext \<times> releaseFn, ClientInfo) task \<times> SessionBrowserContextFactory" where
  "createContext_begin clientInfo t st =
     (let sid = defaultSessionId st in
      case map_of (sessions st) sid of
        Some session \<Rightarrow>
          (Returned (browserContext session, ReleaseSession sid), acquired sid session t st)
      | None \<Rightarrow> (Awaiting clientInfo, st\<lparr>wrappedCalls := wrappedCalls st @ [clientInfo]\<rparr>))"

definition createContext_resume ::
  "error + BrowserContext \<times> CloseFn \<Rightarrow> int \<Rightarrow> int \<Rightarrow> int \<Rightarrow> SessionBrowserContextFactory \<Rightarrow>
     (error + BrowserContext \<times> releaseFn) \<times> SessionBrowserContextFactory" where
  "createContext_resume settled tc ta t st =
     (let sid = defaultSessionId st in
      case settled of
        Inl e \<Rightarrow> (Inl e, st)
      | Inr result \<Rightarrow>
          (let session = newSession sid result tc ta in
           (Inr (browserContext session, ReleaseSession sid),
            acquired sid session t (registerSession sid session st))))"

definition createContext ::
  "ClientInfo \<Rightarrow> error + BrowserContext \<times> CloseFn \<Rightarrow> int \<Rightarrow> int \<Rightarrow> int \<Rightarrow>
     SessionBrowserContextFactory \<Rightarrow>
     (error + BrowserContext \<times> releaseFn) \<times> SessionBrowserContextFactory" where
  "createContext clientInfo settled tc ta t st =
     (case createContext_begin clientInfo t st of
        (Returned r, st') \<Rightarrow> (Inr r, st')
      | (Awaiting c, st') \<Rightarrow> createContext_resume settled tc ta t st')"

definition getOrCreateSession_begin ::
  "string \<Rightarrow> ClientInfo \<Rightarrow> int \<Rightarrow> SessionBrowserContextFactory \<Rightarrow>
     (BrowserContext, ClientInfo) task \<times> SessionBrowserContextFactory" where
  "getOrCreateSession_begin sid clientInfo t st =
     (case map_of (sessions st) sid of
        Some session \<Rightarrow> (Returned (browserContext session), acquired sid session t st)
      | None \<Rightarrow> (Awaiting clientInfo, st\<lparr>wrappedCalls := wrappedCalls st @ [clientInfo]\<rparr>))"

definition getOrCreateSession_resume ::
  "string \<Rightarrow> error + BrowserContext \<times> CloseFn \<Rightarrow> int \<Rightarrow> int \<Rightarrow> int \<Rightarrow>
     SessionBrowserContextFactory \<Rightarrow> (error + BrowserContext) \<times> SessionBrowserContextFactory" where
  "getOrCreateSession_resume sid settled tc ta t st =
     (case settled of
        Inl e \<Rightarrow> (Inl e, st)
      | Inr result \<Rightarrow>
          (let session = newSession sid result tc ta in
           (Inr (browserContext session),
            acquired sid session t (registerSession sid session st))))"

definition getOrCreateSession ::
  "string \<Rightarrow> ClientInfo \<Rightarrow> error + BrowserContext \<times> CloseFn \<Rightarrow> int \<Rightarrow> int \<Rightarrow> int \<Rightarrow>
     SessionBrowserContextFactory \<Rightarrow> (error + BrowserContext) \<times> SessionBrowserContextFactory" where
  "getOrCreateSession sid clientInfo settled tc ta t st =
     (case getOrCreateSession_begin sid clientInfo t st of
        (Returned r, st') \<Rightarrow> (Inr r, st')
      | (Awaiting c, st') \<Rightarrow> getOrCreateSession_resume sid settled tc ta t st')"

section \<open>Release\<close>

definition releaseSession ::
  "string \<Rightarrow> SessionBrowserContextFactory \<Rightarrow> SessionBrowserContextFactory" where
  "releaseSession sid st =
     (case map_of (sessions st) sid of
        None \<Rightarrow> st
      | Some session \<Rightarrow>
          st\<lparr>sessions :=
               AList.update sid (session\<lparr>refCount := refCount session - 1\<rparr>) (sessions st)\<rparr>)"

fun callRelease :: "releaseFn \<Rightarrow> SessionBrowserContextFactory \<Rightarrow> SessionBrowserContextFactory" where
  "callRelease (ReleaseSession sid) st = releaseSession sid st"

section \<open>Sequences of acquires and releases\<close>

text \<open>
  A caller's view of the factory: calls of \<open>createContext\<close> and \<open>getOrCreateSession\<close>,
  each with what the wrapped factory's promise settles to should it be called and the
  readings of the clock, and releases of an identifier, each the call of a closure
  \<open>() => this._releaseSession(sessionId)\<close>. \<open>acquireReturned sid\<close> holds of an acquire of
  \<open>sid\<close> that returns rather than throws, \<open>releaseFound sid\<close> of a release of \<open>sid\<close> that
  finds a session under it. \<open>refCountOf sid\<close> reads the \<open>refCount\<close> under \<open>sid\<close>, 0 when
  nothing is resident there.
\<close>

datatype op =
    CreateContext ClientInfo "error + BrowserContext \<times> CloseFn" int int int
  | GetOrCreateSession string ClientInfo "error + BrowserContext \<times> CloseFn" int int int
  | Release string

fun exec :: "op \<Rightarrow> SessionBrowserContextFactory \<Rightarrow> SessionBrowserContextFactory" where
  "exec (CreateContext ci settled tc ta t) st = snd (createContext ci settled tc ta t st)"
| "exec (GetOrCreateSession sid ci settled tc ta t) st =
     snd (getOrCreateSession sid ci settled tc ta t st)"
| "exec (Release sid) st = callRelease (ReleaseSession sid) st"

fun run :: "op list \<Rightarrow> SessionBrowserContextFactory \<Rightarrow> SessionBrowserContextFactory" where
  "run [] st = st"
| "run (x # xs) st = run xs (exec x st)"

fun acquireReturned :: "string \<Rightarrow> op \<Rightarrow> SessionBrowserContextFactory \<Rightarrow> bool" where
  "acquireReturned sid (CreateContext ci settled tc ta t) st =
     (defaultSessionId st = sid \<and> isl (fst (createContext ci settled tc ta t st)) = False)"
| "acquireReturned sid (GetOrCreateSession sid' ci settled tc ta t) st =
     (sid' = sid \<and> isl (fst (getOrCreateSession sid' ci settled tc ta t st)) = False)"
| "acquireReturned sid (Release sid') st = False"

fun releaseFound :: "string \<Rightarrow> op \<Rightarrow> SessionBrowserContextFactory \<Rightarrow> bool" where
  "releaseFound sid (Release sid') st = (sid' = sid \<and> map_of (sessions st) sid' \<noteq> None)"
| "releaseFound sid (CreateContext ci settled tc ta t) st = False"
| "releaseFound sid (GetOrCreateSession sid' ci settled tc ta t) st = False"

fun acquires :: "string \<Rightarrow> op list \<Rightarrow> SessionBrowserContextFactory \<Rightarrow> int" where
  "acquires sid [] st = 0"
| "acquires sid (x # xs) st =
     (if acquireReturned sid x st then 1 else 0) + acquires sid xs (exec x st)"

fun releases :: "string \<Rightarrow> op list \<Rightarrow> SessionBrowserContextFactory \<Rightarrow> int" where
  "releases sid [] st = 0"
| "releases sid (x # xs) st =
     (if releaseFound sid x st then 1 else 0) + releases sid xs (exec x st)"

definition refCountOf :: "string \<Rightarrow> SessionBrowserContextFactory \<Rightarrow> int" where
  "refCountOf sid st = (case map_of (sessions st) sid of None \<Rightarrow> 0 | Some session \<Rightarrow> refCount session)"

section \<open>Overlapping calls\<close>

text \<open>
  Calls overlap when one starts while another is stopped at its \<open>await\<close>. \<open>startOp\<close> runs
  the first uninterrupted part of a call and tells whether it stopped at the \<open>await\<close>,
  \<open>startAll\<close> starts calls one after the other and returns those left waiting, and
  \<open>resumeOp\<close> runs the part after the \<open>await\<close> of a call that waited. A release has no
  \<open>await\<close>. \<open>provisioningArg\<close> is the argument with which an acquire calls the wrapped
  factory; \<open>provisionedAcquire sid d\<close> holds of an acquire of \<open>sid\<close>, on a factory whose
  default identifier is \<open>d\<close>, whose provisioning resolves.
\<close>

fun isAwaiting :: "('a, 'c) task \<Rightarrow> bool" where
  "isAwaiting (Returned r) = False"
| "isAwaiting (Awaiting c) = True"

fun startOp :: "op \<Rightarrow> SessionBrowserContextFactory \<Rightarrow> bool \<times> SessionBrowserContextFactory" where
  "startOp (CreateContext ci settled tc ta t) st =
     (case createContext_begin ci t st of (k, st') \<Rightarrow> (isAwaiting k, st'))"
| "startOp (GetOrCreateSession sid ci settled tc ta t) st =
     (case getOrCreateSession_begin sid ci t st of (k, st') \<Rightarrow> (isAwaiting k, st'))"
| "startOp (Release sid) st = (False, callRelease (ReleaseSession sid) st)"

fun resumeOp :: "op \<Rightarrow> SessionBrowserContextFactory \<Rightarrow> SessionBrowserContextFactory" where
  "resumeOp (CreateContext ci settled tc ta t) st = snd (createContext_resume settled tc ta t st)"
| "resumeOp (GetOrCreateSession sid ci settled tc ta t) st =
     snd (getOrCreateSession_resume sid settled tc ta t st)"
| "resumeOp (Release sid) st = st"

fun startAll ::
  "op list \<Rightarrow> SessionBrowserContextFactory \<Rightarrow> op list \<times> SessionBrowserContextFactory" where
  "startAll [] st = ([], st)"
| "startAll (c # cs) st =
     (case startOp c st of
        (suspended, st') \<Rightarrow>
          (case startAll cs st' of
             (pending, st'') \<Rightarrow> ((if suspended then [c] else []) @ pending, st'')))"

fun provisioningArg :: "op \<Rightarrow> ClientInfo list" where
  "provisioningArg (CreateContext ci settled tc ta t) = [ci]"
| "provisioningArg (GetOrCreateSession sid ci settled tc ta t) = [ci]"
| "provisioningArg (Release sid) = []"

fun provisionedAcquire :: "string \<Rightarrow> string \<Rightarrow> op \<Rightarrow> bool" where
  "provisionedAcquire sid d (CreateContext ci settled tc ta t) = (d = sid \<and> \<not> isl settled)"
| "provisionedAcquire sid d (GetOrCreateSession sid' ci settled tc ta t) =
     (sid' = sid \<and> \<not> isl settled)"
| "provisionedAcquire sid d (Release sid') = False"

section \<open>Closing sessions\<close>

text \<open>
  \<open>closeSession\<close> deletes the entry and calls \<open>session.close()\<close> before it suspends; when
  the promise has settled (\<open>None\<close>: resolved, \<open>Some e\<close>: rejected with \<open>e\<close>) the
  \<open>try\<close>/\<open>catch\<close> turns the outcome into the boolean. In the uninterrupted call the
  outcome of each callback is given by \<open>td\<close>.
\<close>

definition closeSession_begin ::
  "string \<Rightarrow> SessionBrowserContextFactory \<Rightarrow> (bool, CloseFn) task \<times> SessionBrowserContextFactory" where
  "closeSession_begin sid st =
     (case map_of (sessions st) sid of
        None \<Rightarrow> (Returned False, st)
      | Some session \<Rightarrow>
          (Awaiting (close session),
           st\<lparr>sessions := AList.delete sid (sessions st),
              closeCalls := closeCalls st @ [close session]\<rparr>))"

definition closeSession_resume :: "error option \<Rightarrow> bool" where
  "closeSession_resume settled = (case settled of None \<Rightarrow> True | Some e \<Rightarrow> False)"

definition closeSession ::
  "(CloseFn \<Rightarrow> error option) \<Rightarrow> string \<Rightarrow> SessionBrowserContextFactory \<Rightarrow>
     bool \<times> SessionBrowserContextFactory" where
  "closeSession td sid st =
     (case closeSession_begin sid st of
        (Returned b, st') \<Rightarrow> (b, st')
      | (Awaiting c, st') \<Rightarrow> (closeSession_resume (td c), st'))"

text \<open>
  The handler subscribed at lines 78-81 and 132-135: when the context \<open>ctx\<close> emits
  \<open>close\<close>, every handler registered on it deletes the identifier it captured.
\<close>

definition contextClosed ::
  "BrowserContext \<Rightarrow> SessionBrowserContextFactory \<Rightarrow> SessionBrowserContextFactory" where
  "contextClosed ctx st =
     st\<lparr>sessions :=
          fold (\<lambda>l m. AList.delete (snd l) m)
            (filter (\<lambda>l. fst l = ctx) (closeListeners st)) (sessions st)\<rparr>"

definition listSessions :: "SessionBrowserContextFactory \<Rightarrow> string list" where
  "listSessions st = map fst (sessions st)"

text \<open>
  \<open>closeAllSessions\<close>: each session is mapped to an \<open>async\<close> closure that calls
  \<open>session.close()\<close> inside \<open>try\<close>/\<open>catch\<close>; \<open>Promise.all\<close> rejects with the first
  rejection among its promises, and only when it resolves does the function go on to
  \<open>clear()\<close>.
\<close>

definition closure ::
  "(CloseFn \<Rightarrow> error option) \<Rightarrow> ManagedSession \<Rightarrow> SessionBrowserContextFactory \<Rightarrow>
     (error + unit) \<times> SessionBrowserContextFactory" where
  "closure td session st =
     (let st' = st\<lparr>closeCalls := closeCalls st @ [close session]\<rparr> in
      case td (close session) of
        None \<Rightarrow> (Inr (), st')
      | Some e \<Rightarrow> (Inr (), st'))"

fun closurePromises ::
  "(CloseFn \<Rightarrow> error option) \<Rightarrow> ManagedSession list \<Rightarrow> SessionBrowserContextFactory \<Rightarrow>
     (error + unit) list \<times> SessionBrowserContextFactory" where
  "closurePromises td [] st = ([], st)"
| "closurePromises td (session # rest) st =
     (case closure td session st of
        (p, st') \<Rightarrow> (case closurePromises td rest st' of (ps, st'') \<Rightarrow> (p # ps, st'')))"

fun promiseAll :: "(error + unit) list \<Rightarrow> error + unit" where
  "promiseAll [] = Inr ()"
| "promiseAll (Inl e # ps) = Inl e"
| "promiseAll (Inr u # ps) = promiseAll ps"

definition closeAllSessions ::
  "(CloseFn \<Rightarrow> error option) \<Rightarrow> SessionBrowserContextFactory \<Rightarrow>
     (error + unit) \<times> SessionBrowserContextFactory" where
  "closeAllSessions td st =
     (case closurePromises td (map snd (sessions st)) st of
        (ps, st') \<Rightarrow>
          (case promiseAll ps of
             Inl e \<Rightarrow> (Inl e, st')
           | Inr u \<Rightarrow> (Inr (), st'\<lparr>sessions := []\<rparr>)))"

text \<open>
  \<open>cleanupOldSessions\<close>: \<open>now\<close> is the \<open>new Date()\<close> of line 196 and \<open>maxAgeMinutes\<close> a
  JavaScript number, taken here as a real; the quotient of line 201 is exact for every
  difference of two dates, and at \<open>maxAgeMinutes = 0\<close> the comparison of line 202 is
  the comparison of the two dates themselves.
\<close>

definition ageMinutes :: "int \<Rightarrow> ManagedSession \<Rightarrow> real" where
  "ageMinutes now session = real_of_int (now - lastAccessedAt session) / (1000 * 60)"

definition sessionsToClose :: "real \<Rightarrow> int \<Rightarrow> (string \<times> ManagedSession) list \<Rightarrow> string list" where
  "sessionsToClose maxAgeMinutes now entries =
     map fst
       (filter (\<lambda>(sid, session). refCount session = 0 \<and> ageMinutes now session > maxAgeMinutes)
          entries)"

fun closeEach ::
  "(CloseFn \<Rightarrow> error option) \<Rightarrow> string list \<Rightarrow> SessionBrowserContextFactory \<Rightarrow>
     SessionBrowserContextFactory" where
  "closeEach td [] st = st"
| "closeEach td (sid # rest) st = closeEach td rest (snd (closeSession td sid st))"

definition cleanupOldSessions ::
  "(CloseFn \<Rightarrow> error option) \<Rightarrow> real \<Rightarrow> int \<Rightarrow> SessionBrowserContextFactory \<Rightarrow>
     nat \<times> SessionBrowserContextFactory" where
  "cleanupOldSessions td maxAgeMinutes now st =
     (let toClose = sessionsToClose maxAgeMinutes now (sessions st) in
      (length toClose, closeEach td toClose st))"

section \<open>Sample inputs\<close>

text \<open>
  A client, and a factory with the default identifier \<open>'default'\<close> whose default session
  was acquired once, at time 1000, and released: resident, with \<open>refCount\<close> 0.
\<close>

abbreviation (input) client :: ClientInfo where
  "client \<equiv> \<lparr>name = ''client'', version = ''1.0''\<rparr>"

abbreviation (input) idleDefault :: SessionBrowserContextFactory where
  "idleDefault \<equiv>
     run [CreateContext client (Inr (1, 1)) 1000 1000 1000, Release ''default''] (newFactory None)"

text \<open>The teardowns that all resolve.\<close>

definition resolving :: "CloseFn \<Rightarrow> error option" where
  "resolving c = None"

section \<open>Unfolding the acquire path\<close>

lemmas acquire_defs =
  createContext_def createContext_begin_def createContext_resume_def
  getOrCreateSession_def getOrCreateSession_begin_def getOrCreateSession_resume_def
  newSession_def registerSession_def acquired_def Let_def

lemmas sample_defs = acquire_defs newFactory_def releaseSession_def refCountOf_def

text \<open>\<open>createContext\<close> changes the factory as \<open>getOrCreateSession\<close> on the default identifier does.\<close>

lemma createContext_state:
  "snd (createContext ci settled tc ta t st) =
     snd (getOrCreateSession (defaultSessionId st) ci settled tc ta t st)"
  by (cases settled; cases "map_of (sessions st) (defaultSessionId st)")
     (simp_all add: acquire_defs)

section \<open>Reference counting\<close>

lemma exec_refCountOf:
  "refCountOf sid (exec x st) =
     refCountOf sid st + (if acquireReturned sid x st then 1 else 0)
       - (if releaseFound sid x st then 1 else 0)"
proof (cases x)
  case (CreateContext ci settled tc ta t)
  then show ?thesis
    by (cases settled)
       (auto simp add: acquire_defs refCountOf_def update_conv' split: option.splits)
next
  case (GetOrCreateSession sid' ci settled tc ta t)
  then show ?thesis
    by (cases settled)
       (auto simp add: acquire_defs refCountOf_def update_conv' split: option.splits)
next
  case (Release sid')
  then show ?thesis
    by (auto simp add: releaseSession_def refCountOf_def update_conv' split: option.splits)
qed

text \<open>
  Claim C1, as the spec states it: over every sequence of acquires and releases of one
  identifier the \<open>refCount\<close> never goes negative. It does: on a fresh factory,
  \<open>createContext\<close> followed by two calls of the release closure it returned leaves the
  default session with \<open>refCount\<close> -1, since \<open>_releaseSession\<close> decrements whatever the
  count is.
\<close>

theorem refCount_negative_counterexample:
  "refCountOf ''default''
     (run [CreateContext client (Inr (1, 1)) 1000 1000 1000, Release ''default'', Release ''default'']
        (newFactory None)) = - 1"
  by (simp add: sample_defs)

text \<open>
  Claim C1, amended: after every sequence of \<open>createContext\<close>, \<open>getOrCreateSession\<close> and
  release calls, from any state of the factory, the \<open>refCount\<close> under an identifier is
  its value before the sequence (0 when no session was resident, as on a fresh factory)
  plus the number of acquires of that identifier that returned, minus the number of
  releases of it that found a session. Nothing bounds it below.
\<close>

theorem refCount_acquires_minus_releases:
  "refCountOf sid (run ops st) = refCountOf sid st + acquires sid ops st - releases sid ops st"
proof (induction ops arbitrary: st)
  case Nil
  show ?case by simp
next
  case (Cons x xs)
  have "refCountOf sid (run (x # xs) st) = refCountOf sid (run xs (exec x st))"
    by simp
  also have "\<dots> =
      refCountOf sid (exec x st) + acquires sid xs (exec x st) - releases sid xs (exec x st)"
    by (rule Cons.IH)
  also have "\<dots> = refCountOf sid st + acquires sid (x # xs) st - releases sid (x # xs) st"
    by (simp add: exec_refCountOf)
  finally show ?case .
qed

theorem refCount_acquires_minus_releases_witness:
  "acquires ''default''
     [CreateContext client (Inr (1, 1)) 1000 1000 1000,
      GetOrCreateSession ''default'' client (Inl (Error ''unused'')) 1001 1001 1001,
      Release ''default''] (newFactory None) = 2 \<and>
   releases ''default''
     [CreateContext client (Inr (1, 1)) 1000 1000 1000,
      GetOrCreateSession ''default'' client (Inl (Error ''unused'')) 1001 1001 1001,
      Release ''default''] (newFactory None) = 1 \<and>
   refCountOf ''default''
     (run [CreateContext client (Inr (1, 1)) 1000 1000 1000,
           GetOrCreateSession ''default'' client (Inl (Error ''unused'')) 1001 1001 1001,
           Release ''default''] (newFactory None)) = 1"
proof -
  let ?ops = "[CreateContext client (Inr (1, 1)) 1000 1000 1000,
               GetOrCreateSession ''default'' client (Inl (Error ''unused'')) 1001 1001 1001,
               Release ''default'']"
  have a: "acquires ''default'' ?ops (newFactory None) = 2"
    by (simp add: sample_defs)
  have r: "releases ''default'' ?ops (newFactory None) = 1"
    by (simp add: sample_defs)
  have z: "refCountOf ''default'' (newFactory None) = 0"
    by (simp add: sample_defs)
  from refCount_acquires_minus_releases [of "''default''" ?ops "newFactory None"] a r z
  show ?thesis by simp
qed

text \<open>
  Claim C2, as the spec states it: a release of a session whose \<open>refCount\<close> is already 0
  leaves the state unchanged. It does not: the default session of \<open>idleDefault\<close> has
  \<open>refCount\<close> 0, and releasing it once more changes the factory.
\<close>

theorem release_at_zero_counterexample:
  "refCountOf ''default'' idleDefault = 0 \<and>
   releaseSession ''default'' idleDefault \<noteq> idleDefault \<and>
   refCountOf ''default'' (releaseSession ''default'' idleDefault) = - 1"
  by (simp add: sample_defs)

text \<open>
  Claim C2, amended: \<open>_releaseSession\<close> has no \<open>throw\<close> and always returns. On an
  identifier with no session it leaves the factory unchanged. On a resident session,
  whatever its \<open>refCount\<close> (0 included, which becomes -1), it lowers that \<open>refCount\<close> by
  one and changes nothing else: no other field of the session, no other entry, no other
  part of the factory.
\<close>

theorem releaseSession_effect:
  "(map_of (sessions st) sid = None \<longrightarrow> releaseSession sid st = st) \<and>
   (\<forall>s. map_of (sessions st) sid = Some s \<longrightarrow>
      releaseSession sid st =
        st\<lparr>sessions := AList.update sid (s\<lparr>refCount := refCount s - 1\<rparr>) (sessions st)\<rparr>)"
  by (simp add: releaseSession_def)

theorem releaseSession_effect_witness:
  "map_of (sessions idleDefault) ''other'' = None \<and>
   releaseSession ''other'' idleDefault = idleDefault \<and>
   map_of (sessions idleDefault) ''default'' =
     Some \<lparr>browserContext = 1, close = 1, refCount = 0, sessionId = ''default'',
           createdAt = 1000, lastAccessedAt = 1000\<rparr> \<and>
   sessions (releaseSession ''default'' idleDefault) =
     [(''default'',
       \<lparr>browserContext = 1, close = 1, refCount = - 1, sessionId = ''default'',
        createdAt = 1000, lastAccessedAt = 1000\<rparr>)]"
  using releaseSession_effect [of idleDefault "''other''"]
    releaseSession_effect [of idleDefault "''default''"]
  by (simp add: sample_defs)

section \<open>Provisioning failure\<close>

text \<open>
  Claim C6: when \<open>createContext\<close> or \<open>getOrCreateSession\<close> finds no session under its
  identifier and the provisioning call of the wrapped factory rejects with \<open>e\<close>, the call
  rejects with that same \<open>e\<close>, the wrapped factory has been called exactly once (with the
  caller's \<open>clientInfo\<close>, and not again), and the factory is otherwise as before: no
  session inserted, no listener registered.
\<close>

theorem provisioning_failure_propagates:
  "map_of (sessions st) sid = None \<Longrightarrow>
   getOrCreateSession sid ci (Inl e) tc ta t st =
     (Inl e, st\<lparr>wrappedCalls := wrappedCalls st @ [ci]\<rparr>) \<and>
   (defaultSessionId st = sid \<longrightarrow>
      createContext ci (Inl e) tc ta t st =
        (Inl e, st\<lparr>wrappedCalls := wrappedCalls st @ [ci]\<rparr>))"
  by (auto simp add: acquire_defs)

theorem provisioning_failure_propagates_witness:
  "map_of (sessions (newFactory None)) ''default'' = None \<and>
   defaultSessionId (newFactory None) = ''default'' \<and>
   getOrCreateSession ''default'' client (Inl (Error ''launch failed'')) 5 6 7 (newFactory None) =
     (Inl (Error ''launch failed''), (newFactory None)\<lparr>wrappedCalls := [client]\<rparr>) \<and>
   createContext client (Inl (Error ''launch failed'')) 5 6 7 (newFactory None) =
     (Inl (Error ''launch failed''), (newFactory None)\<lparr>wrappedCalls := [client]\<rparr>) \<and>
   sessions ((newFactory None)\<lparr>wrappedCalls := [client]\<rparr>) = []"
proof -
  have absent: "map_of (sessions (newFactory None)) ''default'' = None"
    and dflt: "defaultSessionId (newFactory None) = ''default''"
    and calls: "wrappedCalls (newFactory None) = []"
    by (simp_all add: newFactory_def)
  from provisioning_failure_propagates
         [OF absent, of client "Error ''launch failed''" 5 6 7] dflt calls
  show ?thesis
    by (simp add: absent) (simp add: newFactory_def)
qed

section \<open>Acquiring a resident session\<close>

text \<open>
  Claim C10: when a session \<open>s\<close> is resident under the identifier, \<open>getOrCreateSession\<close>
  (and \<open>createContext\<close>, when the identifier is the default one) returns the
  \<open>browserContext\<close> stored in \<open>s\<close>, makes no call to the wrapped factory whatever the
  provisioning would have given, and changes the factory only in the entry of that
  identifier, which becomes \<open>s\<close> with \<open>refCount\<close> one higher and \<open>lastAccessedAt\<close>
  refreshed: \<open>browserContext\<close>, \<open>close\<close>, \<open>sessionId\<close> and \<open>createdAt\<close> of the session, the
  order of the keys and every other entry stay as they were.
\<close>

theorem acquire_existing_frame:
  assumes "map_of (sessions st) sid = Some s"
  shows "getOrCreateSession sid ci settled tc ta t st =
           (Inr (browserContext s),
            st\<lparr>sessions :=
                 AList.update sid (s\<lparr>refCount := refCount s + 1, lastAccessedAt := t\<rparr>)
                   (sessions st)\<rparr>) \<and>
         (defaultSessionId st = sid \<longrightarrow>
            createContext ci settled tc ta t st =
              (Inr (browserContext s, ReleaseSession sid),
               st\<lparr>sessions :=
                    AList.update sid (s\<lparr>refCount := refCount s + 1, lastAccessedAt := t\<rparr>)
                      (sessions st)\<rparr>)) \<and>
         wrappedCalls (snd (getOrCreateSession sid ci settled tc ta t st)) = wrappedCalls st \<and>
         map fst (sessions (snd (getOrCreateSession sid ci settled tc ta t st))) =
           map fst (sessions st) \<and>
         (\<forall>k. k \<noteq> sid \<longrightarrow>
            map_of (sessions (snd (getOrCreateSession sid ci settled tc ta t st))) k =
              map_of (sessions st) k)"
proof -
  have key: "sid \<in> fst ` set (sessions st)"
    using assms by (metis map_of_eq_None_iff option.distinct(1))
  have g: "getOrCreateSession sid ci settled tc ta t st =
           (Inr (browserContext s),
            st\<lparr>sessions :=
                 AList.update sid (s\<lparr>refCount := refCount s + 1, lastAccessedAt := t\<rparr>)
                   (sessions st)\<rparr>)"
    using assms by (simp add: acquire_defs)
  have c: "defaultSessionId st = sid \<longrightarrow>
            createContext ci settled tc ta t st =
              (Inr (browserContext s, ReleaseSession sid),
               st\<lparr>sessions :=
                    AList.update sid (s\<lparr>refCount := refCount s + 1, lastAccessedAt := t\<rparr>)
                      (sessions st)\<rparr>)"
    using assms by (auto simp add: acquire_defs)
  have keys: "map fst (sessions (snd (getOrCreateSession sid ci settled tc ta t st))) =
           map fst (sessions st)"
    using key by (simp add: g update_keys)
  have others: "\<forall>k. k \<noteq> sid \<longrightarrow>
            map_of (sessions (snd (getOrCreateSession sid ci settled tc ta t st))) k =
              map_of (sessions st) k"
    by (simp add: g update_conv')
  from g c keys others show ?thesis
    by simp
qed

theorem acquire_existing_frame_witness:
  "map_of (sessions idleDefault) ''default'' =
     Some \<lparr>browserContext = 1, close = 1, refCount = 0, sessionId = ''default'',
           createdAt = 1000, lastAccessedAt = 1000\<rparr> \<and>
   fst (createContext client (Inr (2, 2)) 2000 2001 2002 idleDefault) =
     Inr (1, ReleaseSession ''default'') \<and>
   sessions (snd (createContext client (Inr (2, 2)) 2000 2001 2002 idleDefault)) =
     [(''default'',
       \<lparr>browserContext = 1, close = 1, refCount = 1, sessionId = ''default'',
        createdAt = 1000, lastAccessedAt = 2002\<rparr>)] \<and>
   wrappedCalls (snd (createContext client (Inr (2, 2)) 2000 2001 2002 idleDefault)) = [client]"
  using acquire_existing_frame
    [of idleDefault "''default''"
        "\<lparr>browserContext = 1, close = 1, refCount = 0, sessionId = ''default'',
          createdAt = 1000, lastAccessedAt = 1000\<rparr>"
        client "Inr (2, 2)" 2000 2001 2002]
  by (simp add: sample_defs)

section \<open>Explicit close\<close>

text \<open>
  Claim C4: \<open>closeSession\<close> on an identifier with no session returns \<open>false\<close> and leaves
  the factory as it was. On a resident session \<open>s\<close> its first part, which ends at the
  \<open>await\<close> of \<open>s.close()\<close>, has already deleted the entry, so that an acquire of the
  identifier starting then finds nothing and goes to the wrapped factory; the whole
  call returns \<open>true\<close> exactly when the teardown resolves, \<open>false\<close> when it rejects, and in
  both cases the entry stays deleted. No outcome of the teardown makes \<open>closeSession\<close> throw.
\<close>

theorem closeSession_contract:
  "(map_of (sessions st) sid = None \<longrightarrow> closeSession td sid st = (False, st)) \<and>
   (\<forall>s. map_of (sessions st) sid = Some s \<longrightarrow>
      closeSession_begin sid st =
        (Awaiting (close s),
         st\<lparr>sessions := AList.delete sid (sessions st),
            closeCalls := closeCalls st @ [close s]\<rparr>) \<and>
      map_of (sessions (snd (closeSession_begin sid st))) sid = None \<and>
      fst (getOrCreateSession_begin sid ci t (snd (closeSession_begin sid st))) = Awaiting ci \<and>
      closeSession td sid st = (td (close s) = None, snd (closeSession_begin sid st)))"
  by (auto simp add: closeSession_def closeSession_begin_def closeSession_resume_def
        getOrCreateSession_begin_def delete_conv split: option.splits)

theorem closeSession_contract_witness:
  "closeSession (\<lambda>c. Some (Error ''teardown failed'')) ''other'' idleDefault = (False, idleDefault) \<and>
   fst (closeSession (\<lambda>c. Some (Error ''teardown failed'')) ''default'' idleDefault) = False \<and>
   sessions (snd (closeSession (\<lambda>c. Some (Error ''teardown failed'')) ''default'' idleDefault)) = [] \<and>
   closeCalls (snd (closeSession (\<lambda>c. Some (Error ''teardown failed'')) ''default'' idleDefault)) = [1] \<and>
   fst (closeSession (\<lambda>c. None) ''default'' idleDefault) = True"
  using closeSession_contract
      [of idleDefault "''other''" "\<lambda>c. Some (Error ''teardown failed'')" client 0]
    closeSession_contract
      [of idleDefault "''default''" "\<lambda>c. Some (Error ''teardown failed'')" client 0]
    closeSession_contract [of idleDefault "''default''" "\<lambda>c. None" client 0]
  by (simp add: sample_defs closeSession_begin_def)

section \<open>Closing every session\<close>

lemma closurePromises_all:
  "closurePromises td ss st =
     (replicate (length ss) (Inr ()), st\<lparr>closeCalls := closeCalls st @ map close ss\<rparr>)"
proof (induction ss arbitrary: st)
  case Nil
  show ?case by simp
next
  case (Cons s ss)
  show ?case
    by (simp add: Cons.IH closure_def Let_def split: option.split)
qed

lemma promiseAll_replicate: "promiseAll (replicate n (Inr ())) = Inr ()"
  by (induction n) simp_all

text \<open>
  Claim C7: whatever the outcome \<open>td\<close> of each teardown, \<open>closeAllSessions\<close> does not
  reject, has called \<open>close()\<close> of every resident session, in the order of the map (a
  teardown that rejects is caught inside its own closure and the later ones are called
  all the same), and leaves the map empty.
\<close>

theorem closeAllSessions_clears:
  "closeAllSessions td st =
     (Inr (),
      st\<lparr>closeCalls := closeCalls st @ map (\<lambda>p. close (snd p)) (sessions st),
         sessions := []\<rparr>)"
  by (simp add: closeAllSessions_def closurePromises_all promiseAll_replicate comp_def)

theorem closeAllSessions_clears_witness:
  "map (\<lambda>p. (fst p, close (snd p)))
     (sessions
        (run [CreateContext client (Inr (1, 1)) 1000 1000 1000,
              GetOrCreateSession ''a'' client (Inr (2, 2)) 1001 1001 1001,
              GetOrCreateSession ''b'' client (Inr (3, 3)) 1002 1002 1002] (newFactory None))) =
     [(''default'', 1), (''a'', 2), (''b'', 3)] \<and>
   fst (closeAllSessions (\<lambda>c. if c = 2 then Some (Error ''teardown failed'') else None)
     (run [CreateContext client (Inr (1, 1)) 1000 1000 1000,
           GetOrCreateSession ''a'' client (Inr (2, 2)) 1001 1001 1001,
           GetOrCreateSession ''b'' client (Inr (3, 3)) 1002 1002 1002] (newFactory None))) = Inr () \<and>
   sessions (snd (closeAllSessions (\<lambda>c. if c = 2 then Some (Error ''teardown failed'') else None)
     (run [CreateContext client (Inr (1, 1)) 1000 1000 1000,
           GetOrCreateSession ''a'' client (Inr (2, 2)) 1001 1001 1001,
           GetOrCreateSession ''b'' client (Inr (3, 3)) 1002 1002 1002] (newFactory None)))) = [] \<and>
   closeCalls (snd (closeAllSessions (\<lambda>c. if c = 2 then Some (Error ''teardown failed'') else None)
     (run [CreateContext client (Inr (1, 1)) 1000 1000 1000,
           GetOrCreateSession ''a'' client (Inr (2, 2)) 1001 1001 1001,
           GetOrCreateSession ''b'' client (Inr (3, 3)) 1002 1002 1002] (newFactory None)))) =
     [1, 2, 3]"
  using closeAllSessions_clears
    [of "\<lambda>c. if c = 2 then Some (Error ''teardown failed'') else None"
        "run [CreateContext client (Inr (1, 1)) 1000 1000 1000,
              GetOrCreateSession ''a'' client (Inr (2, 2)) 1001 1001 1001,
              GetOrCreateSession ''b'' client (Inr (3, 3)) 1002 1002 1002] (newFactory None)"]
  by (simp add: sample_defs)

section \<open>Idle cleanup\<close>

lemma ageMinutes_pos: "(0 < ageMinutes now s) = (lastAccessedAt s < now)"
  by (simp add: ageMinutes_def)

lemma sessionsToClose_zero:
  "sessionsToClose 0 now entries =
     map fst (filter (\<lambda>p. refCount (snd p) = 0 \<and> lastAccessedAt (snd p) < now) entries)"
  by (simp add: sessionsToClose_def ageMinutes_pos case_prod_unfold)

lemma closeSession_sessions:
  "sessions (snd (closeSession td sid st)) = AList.delete sid (sessions st)"
proof (cases "map_of (sessions st) sid")
  case None
  then have "sid \<notin> fst ` set (sessions st)"
    by (simp add: map_of_eq_None_iff)
  with None show ?thesis
    by (simp add: closeSession_def closeSession_begin_def)
next
  case (Some s)
  then show ?thesis
    by (simp add: closeSession_def closeSession_begin_def)
qed

lemma closeEach_sessions:
  "sessions (closeEach td ids st) = filter (\<lambda>p. fst p \<notin> set ids) (sessions st)"
proof (induction ids arbitrary: st)
  case Nil
  show ?case by simp
next
  case (Cons k ks)
  have "sessions (closeEach td (k # ks) st) =
          filter (\<lambda>p. fst p \<notin> set ks) (AList.delete k (sessions st))"
    by (simp add: Cons.IH closeSession_sessions)
  also have "\<dots> = filter (\<lambda>p. fst p \<notin> set (k # ks)) (sessions st)"
    by (auto simp add: AList.delete_eq case_prod_unfold intro: filter_cong)
  finally show ?case .
qed

lemma selected_keys:
  assumes "distinct (map fst entries)" and "p \<in> set entries"
  shows "(fst p \<in> set (map fst (filter P entries))) = P p"
proof
  assume "fst p \<in> set (map fst (filter P entries))"
  then obtain q where q: "q \<in> set entries" "P q" "fst q = fst p"
    by auto
  have "inj_on fst (set entries)"
    using assms(1) by (simp add: distinct_map)
  with q assms(2) have "q = p"
    by (auto dest: inj_onD)
  with q show "P p" by simp
next
  assume "P p"
  with assms(2) show "fst p \<in> set (map fst (filter P entries))"
    by auto
qed

text \<open>
  Claim C3, as the spec states it: \<open>cleanupOldSessions(0)\<close> removes every session whose
  \<open>refCount\<close> is 0, regardless of its age. It does not: line 202 selects a session only
  when its age is greater than \<open>maxAgeMinutes\<close>, and the default session of
  \<open>idleDefault\<close>, idle and last accessed at time 1000, has age 0 for a cleanup that reads
  the clock at 1000. The cleanup returns 0 and leaves the factory as it was.
\<close>

theorem cleanup_zero_same_instant_counterexample:
  "map_of (sessions idleDefault) ''default'' =
     Some \<lparr>browserContext = 1, close = 1, refCount = 0, sessionId = ''default'',
           createdAt = 1000, lastAccessedAt = 1000\<rparr> \<and>
   cleanupOldSessions resolving 0 1000 idleDefault = (0, idleDefault)"
  by (simp add: sample_defs cleanupOldSessions_def sessionsToClose_def ageMinutes_def)

text \<open>
  Claim C3, amended: on a map with distinct keys, as a \<open>Map\<close> has them,
  \<open>cleanupOldSessions(0)\<close> removes exactly the sessions whose \<open>refCount\<close> is 0 and whose
  \<open>lastAccessedAt\<close> is strictly earlier than the clock reading of the call, keeps every
  other entry (so every session with \<open>refCount > 0\<close>) unchanged and in place, and
  returns the number of sessions it selected, whatever the outcome \<open>td\<close> of their
  teardowns.
\<close>

theorem cleanupOldSessions_zero:
  assumes "distinct (map fst (sessions st))"
  shows "fst (cleanupOldSessions td 0 now st) =
           length (filter (\<lambda>p. refCount (snd p) = 0 \<and> lastAccessedAt (snd p) < now)
                     (sessions st)) \<and>
         sessions (snd (cleanupOldSessions td 0 now st)) =
           filter (\<lambda>p. \<not> (refCount (snd p) = 0 \<and> lastAccessedAt (snd p) < now))
             (sessions st)"
proof -
  let ?P = "\<lambda>p. refCount (snd p) = 0 \<and> lastAccessedAt (snd p) < now"
  have n: "fst (cleanupOldSessions td 0 now st) = length (filter ?P (sessions st))"
    by (simp add: cleanupOldSessions_def sessionsToClose_zero Let_def)
  have "sessions (snd (cleanupOldSessions td 0 now st)) =
          filter (\<lambda>p. fst p \<notin> set (map fst (filter ?P (sessions st)))) (sessions st)"
    by (simp add: cleanupOldSessions_def sessionsToClose_zero Let_def closeEach_sessions)
  also have "\<dots> = filter (\<lambda>p. \<not> ?P p) (sessions st)"
    using assms by (intro filter_cong refl) (simp only: selected_keys)
  finally show ?thesis
    using n by simp
qed

theorem cleanupOldSessions_zero_witness:
  "distinct (map fst (sessions
     (run [CreateContext client (Inr (1, 1)) 1000 1000 1000,
           GetOrCreateSession ''b'' client (Inr (2, 2)) 1000 1000 1000,
           Release ''default''] (newFactory None)))) \<and>
   map (\<lambda>p. (fst p, refCount (snd p)))
     (sessions
       (run [CreateContext client (Inr (1, 1)) 1000 1000 1000,
             GetOrCreateSession ''b'' client (Inr (2, 2)) 1000 1000 1000,
             Release ''default''] (newFactory None))) = [(''default'', 0), (''b'', 1)] \<and>
   fst (cleanupOldSessions (\<lambda>c. Some (Error ''teardown failed'')) 0 1001
     (run [CreateContext client (Inr (1, 1)) 1000 1000 1000,
           GetOrCreateSession ''b'' client (Inr (2, 2)) 1000 1000 1000,
           Release ''default''] (newFactory None))) = 1 \<and>
   map fst (sessions (snd (cleanupOldSessions (\<lambda>c. Some (Error ''teardown failed'')) 0 1001
     (run [CreateContext client (Inr (1, 1)) 1000 1000 1000,
           GetOrCreateSession ''b'' client (Inr (2, 2)) 1000 1000 1000,
           Release ''default''] (newFactory None))))) = [''b'']"
proof -
  let ?st = "run [CreateContext client (Inr (1, 1)) 1000 1000 1000,
                  GetOrCreateSession ''b'' client (Inr (2, 2)) 1000 1000 1000,
                  Release ''default''] (newFactory None)"
  have entries: "sessions ?st =
     [(''default'', \<lparr>browserContext = 1, close = 1, refCount = 0, sessionId = ''default'',
                     createdAt = 1000, lastAccessedAt = 1000\<rparr>),
      (''b'', \<lparr>browserContext = 2, close = 2, refCount = 1, sessionId = ''b'',
               createdAt = 1000, lastAccessedAt = 1000\<rparr>)]"
    by (simp add: sample_defs)
  have d: "distinct (map fst (sessions ?st))"
    by (simp only: entries) simp
  from cleanupOldSessions_zero [OF d, of "\<lambda>c. Some (Error ''teardown failed'')" 1001] d
  show ?thesis
    by (simp only: entries) simp
qed

section \<open>The context's own \<open>close\<close> event\<close>

lemma map_of_fold_delete:
  "map_of (fold (\<lambda>l m. AList.delete (snd l) m) ls al) k =
     (if k \<in> snd ` set ls then None else map_of al k)"
  by (induction ls arbitrary: al) (auto simp add: delete_conv)

lemma contextClosed_sessions:
  "map_of (sessions (contextClosed ctx st)) k =
     (if (ctx, k) \<in> set (closeListeners st) then None else map_of (sessions st) k)"
  by (auto simp add: contextClosed_def map_of_fold_delete image_iff)

text \<open>
  Claim C8: a session created by \<open>getOrCreateSession\<close> (or by \<open>createContext\<close>, under the
  default identifier) for a context \<open>ctx\<close> is stored together with a listener on the
  \<open>close\<close> event of \<open>ctx\<close> that captured its identifier. When \<open>ctx\<close> emits \<open>close\<close>, the
  entry of the identifier is gone, no \<open>close()\<close> callback has been invoked by that, and
  an acquire of the identifier that starts afterwards finds no session and goes to the
  wrapped factory. The removal holds in every later state in which the listener is
  registered.
\<close>

theorem close_signal_removes_entry:
  assumes "map_of (sessions st) sid = None"
    and "st1 = snd (getOrCreateSession sid ci (Inr (ctx, cl)) tc ta t st) \<or>
         (defaultSessionId st = sid \<and> st1 = snd (createContext ci (Inr (ctx, cl)) tc ta t st))"
  shows "(ctx, sid) \<in> set (closeListeners st1) \<and>
         map_of (sessions st1) sid =
           Some ((newSession sid (ctx, cl) tc ta)\<lparr>refCount := 1, lastAccessedAt := t\<rparr>) \<and>
         map_of (sessions (contextClosed ctx st1)) sid = None \<and>
         closeCalls (contextClosed ctx st1) = closeCalls st1 \<and>
         fst (getOrCreateSession_begin sid ci' t' (contextClosed ctx st1)) = Awaiting ci' \<and>
         (\<forall>st2. (ctx, sid) \<in> set (closeListeners st2) \<longrightarrow>
            map_of (sessions (contextClosed ctx st2)) sid = None \<and>
            closeCalls (contextClosed ctx st2) = closeCalls st2)"
proof -
  have st1: "st1 = snd (getOrCreateSession sid ci (Inr (ctx, cl)) tc ta t st)"
    using assms(2) createContext_state [of ci "Inr (ctx, cl)" tc ta t st] by auto
  have listener: "(ctx, sid) \<in> set (closeListeners st1)"
    using assms(1) by (simp add: st1 acquire_defs)
  have stored: "map_of (sessions st1) sid =
      Some ((newSession sid (ctx, cl) tc ta)\<lparr>refCount := 1, lastAccessedAt := t\<rparr>)"
    using assms(1) by (simp add: st1 acquire_defs update_conv')
  have gone: "map_of (sessions (contextClosed ctx st1)) sid = None"
    using listener by (simp add: contextClosed_sessions)
  have quiet: "closeCalls (contextClosed ctx st2) = closeCalls st2" for st2
    by (simp add: contextClosed_def)
  have fresh: "fst (getOrCreateSession_begin sid ci' t' (contextClosed ctx st1)) = Awaiting ci'"
    using gone by (simp add: getOrCreateSession_begin_def)
  have later: "\<forall>st2. (ctx, sid) \<in> set (closeListeners st2) \<longrightarrow>
            map_of (sessions (contextClosed ctx st2)) sid = None \<and>
            closeCalls (contextClosed ctx st2) = closeCalls st2"
    by (simp add: contextClosed_sessions quiet)
  from listener stored gone quiet [of st1] fresh later show ?thesis
    by blast
qed

theorem close_signal_removes_entry_witness:
  "map_of (sessions (newFactory None)) ''default'' = None \<and>
   closeListeners (snd (createContext client (Inr (7, 8)) 1000 1000 1000 (newFactory None))) =
     [(7, ''default'')] \<and>
   listSessions (snd (createContext client (Inr (7, 8)) 1000 1000 1000 (newFactory None))) =
     [''default''] \<and>
   listSessions
     (contextClosed 7 (snd (createContext client (Inr (7, 8)) 1000 1000 1000 (newFactory None)))) = [] \<and>
   closeCalls
     (contextClosed 7 (snd (createContext client (Inr (7, 8)) 1000 1000 1000 (newFactory None)))) = []"
proof -
  have absent: "map_of (sessions (newFactory None)) ''default'' = None"
    by (simp add: newFactory_def)
  have made: "snd (createContext client (Inr (7, 8)) 1000 1000 1000 (newFactory None)) =
                snd (getOrCreateSession ''default'' client (Inr (7, 8)) 1000 1000 1000 (newFactory None)) \<or>
              (defaultSessionId (newFactory None) = ''default'' \<and>
               snd (createContext client (Inr (7, 8)) 1000 1000 1000 (newFactory None)) =
                 snd (createContext client (Inr (7, 8)) 1000 1000 1000 (newFactory None)))"
    by (simp add: newFactory_def)
  from close_signal_removes_entry [OF absent made, of client 0] absent
  show ?thesis
    by (simp add: sample_defs contextClosed_def listSessions_def)
qed

section \<open>The default identifier\<close>

text \<open>
  Claim C9: \<open>createContext\<close> is the acquire of the factory's default identifier, which is
  \<open>'default'\<close> unless the constructor was given another and which no call changes. It
  changes the factory exactly as \<open>getOrCreateSession\<close> on that identifier does and
  returns the same context, with a release closure bound to that identifier. Its
  \<open>clientInfo\<close> has no part in the choice: two calls that differ only in \<open>clientInfo\<close>
  return the same result and leave the same map, and \<open>clientInfo\<close> shows up only as the
  argument of the call to the wrapped factory, made only when no default session is
  resident. The only key \<open>createContext\<close> can add to the map is the default identifier.
\<close>

theorem createContext_uses_default:
  "snd (createContext ci settled tc ta t st) =
     snd (getOrCreateSession (defaultSessionId st) ci settled tc ta t st) \<and>
   fst (createContext ci settled tc ta t st) =
     map_sum id (\<lambda>c. (c, ReleaseSession (defaultSessionId st)))
       (fst (getOrCreateSession (defaultSessionId st) ci settled tc ta t st)) \<and>
   sessions (snd (createContext ci settled tc ta t st)) =
     sessions (snd (createContext ci' settled tc ta t st)) \<and>
   fst (createContext ci settled tc ta t st) = fst (createContext ci' settled tc ta t st) \<and>
   wrappedCalls (snd (createContext ci settled tc ta t st)) =
     (if map_of (sessions st) (defaultSessionId st) = None then wrappedCalls st @ [ci]
      else wrappedCalls st) \<and>
   set (listSessions (snd (createContext ci settled tc ta t st))) \<subseteq>
     insert (defaultSessionId st) (set (listSessions st)) \<and>
   defaultSessionId (snd (createContext ci settled tc ta t st)) = defaultSessionId st \<and>
   defaultSessionId (newFactory None) = ''default'' \<and>
   defaultSessionId (newFactory (Some d)) = d"
  by (cases settled; cases "map_of (sessions st) (defaultSessionId st)")
     (auto simp add: acquire_defs newFactory_def listSessions_def update_keys)

theorem createContext_uses_default_witness:
  "listSessions
     (snd (createContext \<lparr>name = ''linkedin-session'', version = ''2''\<rparr> (Inr (2, 2)) 5 6 7
        (newFactory None))) = [''default''] \<and>
   wrappedCalls
     (snd (createContext \<lparr>name = ''linkedin-session'', version = ''2''\<rparr> (Inr (2, 2)) 5 6 7
        (newFactory None))) = [\<lparr>name = ''linkedin-session'', version = ''2''\<rparr>] \<and>
   listSessions
     (snd (createContext \<lparr>name = ''linkedin-session'', version = ''2''\<rparr> (Inr (2, 2)) 5 6 7
        (newFactory (Some ''dice'')))) = [''dice''] \<and>
   fst (createContext \<lparr>name = ''linkedin-session'', version = ''2''\<rparr> (Inr (2, 2)) 5 6 7 idleDefault) =
     Inr (1, ReleaseSession ''default'') \<and>
   fst (createContext \<lparr>name = ''linkedin-session'', version = ''2''\<rparr> (Inr (2, 2)) 5 6 7 idleDefault) =
     fst (createContext client (Inr (2, 2)) 5 6 7 idleDefault) \<and>
   wrappedCalls
     (snd (createContext \<lparr>name = ''linkedin-session'', version = ''2''\<rparr> (Inr (2, 2)) 5 6 7 idleDefault)) =
     [client]"
  using createContext_uses_default
      [of "\<lparr>name = ''linkedin-session'', version = ''2''\<rparr>" "Inr (2, 2)" 5 6 7 "newFactory None"
          client "''dice''"]
    createContext_uses_default
      [of "\<lparr>name = ''linkedin-session'', version = ''2''\<rparr>" "Inr (2, 2)" 5 6 7 idleDefault
          client "''dice''"]
  by (simp add: sample_defs listSessions_def)

section \<open>Acquires that overlap\<close>

lemma startOp_absent:
  assumes "map_of (sessions st) sid = None"
    and "provisionedAcquire sid (defaultSessionId st) c"
  shows "startOp c st = (True, st\<lparr>wrappedCalls := wrappedCalls st @ provisioningArg c\<rparr>)"
  using assms by (cases c) (auto simp add: acquire_defs)

lemma startAll_absent:
  assumes "map_of (sessions st) sid = None"
    and "\<forall>c\<in>set calls. provisionedAcquire sid (defaultSessionId st) c"
  shows "startAll calls st =
           (calls, st\<lparr>wrappedCalls := wrappedCalls st @ concat (map provisioningArg calls)\<rparr>)"
  using assms
proof (induction calls arbitrary: st)
  case Nil
  show ?case by simp
next
  case (Cons c cs)
  let ?st' = "st\<lparr>wrappedCalls := wrappedCalls st @ provisioningArg c\<rparr>"
  have s: "startOp c st = (True, ?st')"
    using Cons.prems by (simp add: startOp_absent)
  have "startAll cs ?st' =
          (cs, ?st'\<lparr>wrappedCalls := wrappedCalls ?st' @ concat (map provisioningArg cs)\<rparr>)"
    using Cons.prems by (intro Cons.IH) simp_all
  with s show ?case by simp
qed

lemma provisioningArg_length:
  "\<forall>c\<in>set calls. provisionedAcquire sid d c \<Longrightarrow>
   length (concat (map provisioningArg calls)) = length calls"
proof (induction calls)
  case Nil
  show ?case by simp
next
  case (Cons c cs)
  then show ?case by (cases c) simp_all
qed

text \<open>
  The part after the \<open>await\<close> of an acquire whose provisioning resolved stores a session
  of its own, with \<open>refCount\<close> 1, over whatever is under the identifier.
\<close>

lemma resumeOp_provisioned:
  assumes "provisionedAcquire sid d c"
  shows "\<exists>S. refCount S = 1 \<and>
           (\<forall>st. defaultSessionId st = d \<longrightarrow>
              resumeOp c st =
                st\<lparr>sessions := AList.update sid S (sessions st),
                   closeListeners := closeListeners st @ [(browserContext S, sid)]\<rparr>)"
proof (cases c)
  case (CreateContext ci settled tc ta t)
  with assms obtain r where "settled = Inr r" and "d = sid"
    by (cases settled) auto
  with CreateContext show ?thesis
    by (intro exI [of _ "(newSession sid r tc ta)\<lparr>refCount := 1, lastAccessedAt := t\<rparr>"])
       (simp add: acquire_defs)
next
  case (GetOrCreateSession sid' ci settled tc ta t)
  with assms obtain r where "settled = Inr r" and "sid' = sid"
    by (cases settled) auto
  with GetOrCreateSession show ?thesis
    by (intro exI [of _ "(newSession sid r tc ta)\<lparr>refCount := 1, lastAccessedAt := t\<rparr>"])
       (simp add: acquire_defs)
next
  case (Release sid')
  with assms show ?thesis by simp
qed

lemma resumeOp_default:
  "provisionedAcquire sid (defaultSessionId st) c \<Longrightarrow>
   defaultSessionId (resumeOp c st) = defaultSessionId st \<and>
   wrappedCalls (resumeOp c st) = wrappedCalls st"
  using resumeOp_provisioned [of sid "defaultSessionId st" c] by auto

lemma fold_resumeOp:
  assumes "order \<noteq> []"
  shows "(\<forall>c\<in>set order. provisionedAcquire sid (defaultSessionId st) c) \<Longrightarrow>
         sessions (fold resumeOp order st) = sessions (resumeOp (last order) st) \<and>
         defaultSessionId (fold resumeOp order st) = defaultSessionId st \<and>
         wrappedCalls (fold resumeOp order st) = wrappedCalls st"
  using assms
proof (induction order rule: rev_nonempty_induct)
  case (single c)
  then show ?case by (simp add: resumeOp_default)
next
  case (snoc c cs)
  let ?mid = "fold resumeOp cs st"
  have ih: "sessions ?mid = sessions (resumeOp (last cs) st)"
    "defaultSessionId ?mid = defaultSessionId st" "wrappedCalls ?mid = wrappedCalls st"
    using snoc by simp_all
  obtain S where S: "\<And>st'. defaultSessionId st' = defaultSessionId st \<Longrightarrow>
      resumeOp c st' = st'\<lparr>sessions := AList.update sid S (sessions st'),
                   closeListeners := closeListeners st' @ [(browserContext S, sid)]\<rparr>"
    using resumeOp_provisioned [of sid "defaultSessionId st" c] snoc.prems by auto
  obtain L where L: "\<And>st'. defaultSessionId st' = defaultSessionId st \<Longrightarrow>
      resumeOp (last cs) st' = st'\<lparr>sessions := AList.update sid L (sessions st'),
                   closeListeners := closeListeners st' @ [(browserContext L, sid)]\<rparr>"
    using resumeOp_provisioned [of sid "defaultSessionId st" "last cs"] snoc.prems snoc.hyps
    by auto
  have "sessions (resumeOp c ?mid) = AList.update sid S (sessions ?mid)"
    using S [of ?mid] ih by simp
  also have "\<dots> = AList.update sid S (AList.update sid L (sessions st))"
    using ih L [of st] by simp
  also have "\<dots> = sessions (resumeOp c st)"
    using S [of st] by simp
  finally have "sessions (resumeOp c ?mid) = sessions (resumeOp c st)" .
  moreover have "defaultSessionId (resumeOp c ?mid) = defaultSessionId st"
    "wrappedCalls (resumeOp c ?mid) = wrappedCalls st"
    using S [of ?mid] ih by simp_all
  ultimately show ?case by simp
qed

text \<open>
  Claim C5, as the spec states it: two acquires of one identifier that overlap while no
  session exists for it make one provisioning call and leave one session with
  \<open>refCount\<close> 2. They do not: on a fresh factory both calls of
  \<open>getOrCreateSession('x', ...)\<close> find no session and stop at the \<open>await\<close> of their own call
  to the wrapped factory; when the two promises have resolved, with contexts 1 and 2,
  the wrapped factory has been called twice and the map holds the session of context
  2, with \<open>refCount\<close> 1.
\<close>

theorem overlapping_acquires_counterexample:
  "fst (getOrCreateSession_begin ''x'' client 10 (newFactory None)) = Awaiting client \<and>
   fst (getOrCreateSession_begin ''x'' client 10
          (snd (getOrCreateSession_begin ''x'' client 10 (newFactory None)))) = Awaiting client \<and>
   wrappedCalls
     (snd (getOrCreateSession_resume ''x'' (Inr (2, 2)) 12 12 12
       (snd (getOrCreateSession_resume ''x'' (Inr (1, 1)) 11 11 11
         (snd (getOrCreateSession_begin ''x'' client 10
           (snd (getOrCreateSession_begin ''x'' client 10 (newFactory None))))))))) =
     [client, client] \<and>
   sessions
     (snd (getOrCreateSession_resume ''x'' (Inr (2, 2)) 12 12 12
       (snd (getOrCreateSession_resume ''x'' (Inr (1, 1)) 11 11 11
         (snd (getOrCreateSession_begin ''x'' client 10
           (snd (getOrCreateSession_begin ''x'' client 10 (newFactory None))))))))) =
     [(''x'',
       \<lparr>browserContext = 2, close = 2, refCount = 1, sessionId = ''x'',
        createdAt = 12, lastAccessedAt = 12\<rparr>)]"
  by (simp add: sample_defs)

text \<open>
  Claim C5, amended: let one or more acquires of one identifier (through
  \<open>getOrCreateSession\<close>, or through \<open>createContext\<close> when the identifier is the default
  one) start while no session exists for it, their provisioning calls all resolve, and
  the calls resume in any order. Then every call has stopped at its own call to the
  wrapped factory, which is called once per caller; each resuming call stores its own
  session over the previous one, so that the map ends as if only the call that resumed
  last had run: one entry for the identifier, appended to the keys, with \<open>refCount\<close> 1.
\<close>

theorem overlapping_acquires:
  assumes absent: "map_of (sessions st) sid = None"
    and calls: "calls \<noteq> []" "\<forall>c\<in>set calls. provisionedAcquire sid (defaultSessionId st) c"
    and order: "mset order = mset calls"
  shows "startAll calls st =
           (calls, st\<lparr>wrappedCalls := wrappedCalls st @ concat (map provisioningArg calls)\<rparr>) \<and>
         length (concat (map provisioningArg calls)) = length calls \<and>
         wrappedCalls (fold resumeOp order (snd (startAll calls st))) =
           wrappedCalls st @ concat (map provisioningArg calls) \<and>
         sessions (fold resumeOp order (snd (startAll calls st))) =
           sessions (resumeOp (last order) st) \<and>
         map fst (sessions (fold resumeOp order (snd (startAll calls st)))) =
           map fst (sessions st) @ [sid] \<and>
         refCountOf sid (fold resumeOp order (snd (startAll calls st))) = 1"
proof -
  let ?st1 = "st\<lparr>wrappedCalls := wrappedCalls st @ concat (map provisioningArg calls)\<rparr>"
  have start: "startAll calls st = (calls, ?st1)"
    using absent calls(2) by (rule startAll_absent)
  have n: "length (concat (map provisioningArg calls)) = length calls"
    using calls(2) by (rule provisioningArg_length)
  have set_eq: "set order = set calls"
    using order by (rule mset_eq_setD)
  have ne: "order \<noteq> []"
    using order calls(1) by auto
  have all: "\<forall>c\<in>set order. provisionedAcquire sid (defaultSessionId ?st1) c"
    using calls(2) set_eq by simp
  have f: "sessions (fold resumeOp order ?st1) = sessions (resumeOp (last order) ?st1)"
    "wrappedCalls (fold resumeOp order ?st1) = wrappedCalls ?st1"
    using fold_resumeOp [OF ne all] by simp_all
  have lastp: "provisionedAcquire sid (defaultSessionId st) (last order)"
    using ne set_eq calls(2) last_in_set by blast
  obtain S where one: "refCount S = 1"
    and S: "\<And>st'. defaultSessionId st' = defaultSessionId st \<Longrightarrow>
      resumeOp (last order) st' = st'\<lparr>sessions := AList.update sid S (sessions st'),
                   closeListeners := closeListeners st' @ [(browserContext S, sid)]\<rparr>"
    using resumeOp_provisioned [OF lastp] by auto
  have same: "sessions (resumeOp (last order) ?st1) = sessions (resumeOp (last order) st)"
    using S [of ?st1] S [of st] by simp
  have upd: "sessions (resumeOp (last order) st) = AList.update sid S (sessions st)"
    using S [of st] by simp
  have notin: "sid \<notin> set (map fst (sessions st))"
    using absent by (simp add: map_of_eq_None_iff)
  have keys: "map fst (AList.update sid S (sessions st)) = map fst (sessions st) @ [sid]"
    using notin by (simp add: update_keys)
  have rc: "refCountOf sid (fold resumeOp order ?st1) = 1"
    using f(1) same upd one by (simp add: refCountOf_def update_conv')
  show ?thesis
    using start n f same upd keys rc by simp
qed

theorem overlapping_acquires_witness:
  "map_of (sessions (newFactory None)) ''default'' = None \<and>
   startAll
     [CreateContext client (Inr (1, 1)) 11 11 11,
      GetOrCreateSession ''default'' client (Inr (2, 2)) 12 12 12,
      CreateContext client (Inr (3, 3)) 13 13 13] (newFactory None) =
     ([CreateContext client (Inr (1, 1)) 11 11 11,
       GetOrCreateSession ''default'' client (Inr (2, 2)) 12 12 12,
       CreateContext client (Inr (3, 3)) 13 13 13],
      (newFactory None)\<lparr>wrappedCalls := [client, client, client]\<rparr>) \<and>
   map (\<lambda>p. (fst p, browserContext (snd p), refCount (snd p)))
     (sessions
       (fold resumeOp
          [CreateContext client (Inr (3, 3)) 13 13 13,
           CreateContext client (Inr (1, 1)) 11 11 11,
           GetOrCreateSession ''default'' client (Inr (2, 2)) 12 12 12]
          (snd (startAll
                 [CreateContext client (Inr (1, 1)) 11 11 11,
                  GetOrCreateSession ''default'' client (Inr (2, 2)) 12 12 12,
                  CreateContext client (Inr (3, 3)) 13 13 13] (newFactory None))))) =
     [(''default'', 2, 1)]"
proof -
  let ?calls = "[CreateContext client (Inr (1, 1)) 11 11 11,
                 GetOrCreateSession ''default'' client (Inr (2, 2)) 12 12 12,
                 CreateContext client (Inr (3, 3)) 13 13 13]"
  let ?order = "[CreateContext client (Inr (3, 3)) 13 13 13,
                 CreateContext client (Inr (1, 1)) 11 11 11,
                 GetOrCreateSession ''default'' client (Inr (2, 2)) 12 12 12]"
  have absent: "map_of (sessions (newFactory None)) ''default'' = None"
    by (simp add: newFactory_def)
  have ne: "?calls \<noteq> []"
    by simp
  have all: "\<forall>c\<in>set ?calls. provisionedAcquire ''default'' (defaultSessionId (newFactory None)) c"
    by (simp add: newFactory_def)
  have perm: "mset ?order = mset ?calls"
    by (simp add: add.commute)
  from overlapping_acquires [OF absent ne all perm] absent
  show ?thesis
    by (simp add: sample_defs)
qed

end
